theory Spec2Isabelle
  imports Main "HOL-Library.Word"
begin

section \<open>The daemon stressor (stress-daemon.c)\<close>

text \<open>
  The stressor is a multi-process program. Its two functions, \<open>daemons\<close> and
  \<open>stress_daemon\<close>, are embedded as functions of the process state and of the values
  the operating system and the harness hand back: every system call whose result the
  code inspects takes that result from an explicit input. A run is followed along one
  line of control: where \<open>fork\<close> returns 0 the run goes on in the new process, which
  starts as a copy of its parent's state; where it returns a positive pid the run goes
  on in the calling process. A loop consumes one input record per iteration and yields
  \<open>None\<close> when the inputs run out before the loop has ended.

  Calls whose result is discarded and that touch none of the state below
  (\<open>sigemptyset\<close>, \<open>sigprocmask\<close>, \<open>clearenv\<close>, \<open>umask\<close>, \<open>stress_drop_capabilities\<close>,
  \<open>stress_set_proc_state\<close>, \<open>stress_get_setting\<close>) are left out.
\<close>

subsection \<open>Constants\<close>

definition EINTR :: nat where "EINTR = 4"
definition EAGAIN :: nat where "EAGAIN = 11"
definition ENOMEM :: nat where "ENOMEM = 12"
definition SIGALRM :: nat where "SIGALRM = 14"

definition EXIT_SUCCESS :: int where "EXIT_SUCCESS = 0"
definition EXIT_FAILURE :: int where "EXIT_FAILURE = 1"

text \<open>\<open>#define MAX_BACKOFF (10000)\<close>, compared with the \<open>uint64_t\<close> backoff.\<close>

definition MAX_BACKOFF :: "64 word" where "MAX_BACKOFF = 10000"

subsection \<open>Process state\<close>

datatype disposition = SIG_DFL | Stop_handler

text \<open>
  \<open>fds\<close> are the descriptors the process holds open, \<open>sigs\<close> its signal dispositions,
  \<open>counter\<close> the harness counter behind \<open>inc_counter\<close>. The other fields record what the
  run has done so far: calls of \<open>fork\<close>, processes created by them, the durations
  handed to \<open>shim_usleep_interruptible\<close>, sentinel bytes written to the pipe, pids
  waited for, and calls of \<open>pr_fail\<close> and \<open>pr_dbg\<close>.
\<close>

record proc =
  fds :: "int set"
  sigs :: "nat \<Rightarrow> disposition"
  counter :: nat
  forks :: nat
  spawned :: nat
  sleeps :: "64 word list"
  written :: nat
  waited :: "int list"
  fails :: nat
  dbgs :: nat

definition close_fd :: "int \<Rightarrow> proc \<Rightarrow> proc" where
  "close_fd fd s = s\<lparr>fds := fds s - {fd}\<rparr>"

definition open_fd :: "int \<Rightarrow> proc \<Rightarrow> proc" where
  "open_fd fd s = s\<lparr>fds := insert fd (fds s)\<rparr>"

text \<open>
  Modelled from the spec: \<open>pr_fail\<close> is the harness's failure-reporting primitive
  ("record a named failure with an OS-level error code and description") and
  \<open>inc_counter\<close> its operation counter increment; their code is not part of this file.
  \<open>pr_dbg\<close> is the harness's debug output. Reports and debug messages are counted.
\<close>

definition pr_fail :: "proc \<Rightarrow> proc" where
  "pr_fail s = s\<lparr>fails := Suc (fails s)\<rparr>"

definition pr_dbg :: "proc \<Rightarrow> proc" where
  "pr_dbg s = s\<lparr>dbgs := Suc (dbgs s)\<rparr>"

definition inc_counter :: "proc \<Rightarrow> proc" where
  "inc_counter s = s\<lparr>counter := Suc (counter s)\<rparr>"

text \<open>
  Modelled from the spec: \<open>stress_sig_stop_stressing\<close> is the harness's stop-signal
  registration primitive ("on signal S, set the keep-running predicate false"); its
  code is not part of this file. \<open>ret\<close> is the value it returns: negative when the
  registration failed, and then no handler is installed.
\<close>

definition stress_sig_stop_stressing :: "nat \<Rightarrow> int \<Rightarrow> proc \<Rightarrow> proc" where
  "stress_sig_stop_stressing sig ret s =
     (if ret < 0 then s else s\<lparr>sigs := (sigs s)(sig := Stop_handler)\<rparr>)"

text \<open>
  \<open>signal(i, SIG_DFL)\<close>, result discarded. For the numbers the kernel refuses (0,
  SIGKILL, SIGSTOP, numbers outside the catalogue) the disposition cannot be anything
  but the default, so the entry written there says nothing new.
\<close>

definition signal_dfl :: "nat \<Rightarrow> (nat \<Rightarrow> disposition) \<Rightarrow> (nat \<Rightarrow> disposition)" where
  "signal_dfl i t = t(i := SIG_DFL)"

text \<open>\<open>for (i = 0; i < MAX_SIGNUM; i++) (void)signal(i, SIG_DFL);\<close>\<close>

definition reset_signals :: "nat \<Rightarrow> proc \<Rightarrow> proc" where
  "reset_signals max_signum s = s\<lparr>sigs := fold signal_dfl [0..<max_signum] (sigs s)\<rparr>"

subsection \<open>\<open>daemon_wait_pid\<close>\<close>

definition daemon_wait_pid :: "int \<Rightarrow> bool \<Rightarrow> proc \<Rightarrow> proc" where
  "daemon_wait_pid pid daemon_wait s =
     (if daemon_wait then s\<lparr>waited := waited s @ [pid]\<rparr> else s)"

subsection \<open>\<open>daemons\<close>\<close>

text \<open>
  The backoff update of the retry branch:
  \<open>backoff += 100; if (backoff > MAX_BACKOFF) backoff = MAX_BACKOFF;\<close>
\<close>

definition next_backoff :: "64 word \<Rightarrow> 64 word" where
  "next_backoff backoff =
     (let b = backoff + 100 in if b > MAX_BACKOFF then MAX_BACKOFF else b)"

text \<open>
  What one pass through the \<open>while\<close> loop of \<open>daemons\<close> is handed: the value of
  \<open>keep_stressing_flag()\<close>, the result of \<open>fork()\<close> with \<open>errno\<close>, and in the new
  process the results of \<open>chdir\<close> and of \<open>write\<close>.
\<close>

record iter =
  it_keep :: bool
  it_pid :: int
  it_errno :: nat
  it_chdir :: int
  it_write :: int

text \<open>The label at which the loop is left.\<close>

datatype loop_exit = Tidy | Err2

fun daemons_loop ::
  "iter list \<Rightarrow> int \<Rightarrow> bool \<Rightarrow> 64 word \<Rightarrow> proc \<Rightarrow> (loop_exit \<times> proc) option" where
  "daemons_loop [] fd daemon_wait backoff s = None"
| "daemons_loop (it # its) fd daemon_wait backoff s =
     (if \<not> it_keep it then Some (Tidy, s)
      else
        let s1 = s\<lparr>forks := Suc (forks s)\<rparr> in
        if it_pid it < 0 then
          (if it_errno it = EAGAIN \<or> it_errno it = ENOMEM then
             daemons_loop its fd daemon_wait (next_backoff backoff)
               (s1\<lparr>sleeps := sleeps s1 @ [backoff]\<rparr>)
           else Some (Tidy, s1))
        else if it_pid it = 0 then
          (let s2 = s1\<lparr>spawned := Suc (spawned s1)\<rparr> in
           if it_chdir it < 0 then Some (Err2, s2)
           else if it_write it \<noteq> 1 then Some (Err2, s2)
           else daemons_loop its fd daemon_wait backoff (s2\<lparr>written := Suc (written s2)\<rparr>))
        else
          Some (Tidy, daemon_wait_pid (it_pid it) daemon_wait (s1\<lparr>spawned := Suc (spawned s1)\<rparr>)))"

text \<open>
  What \<open>daemons\<close> is handed before the loop: the results of
  \<open>stress_sig_stop_stressing\<close>, \<open>setsid\<close>, \<open>open("/dev/null")\<close> and the two \<open>dup(0)\<close>.
\<close>

record daemons_in =
  sig_ret :: int
  setsid_ret :: int
  open_ret :: int
  dup1_ret :: int
  dup2_ret :: int

text \<open>
  \<open>max_signum\<close> is the macro \<open>MAX_SIGNUM\<close> (\<open>NSIG\<close>, \<open>_NSIG\<close> or 256, as the platform
  has it).
\<close>

text \<open>
  Lines 74 to 97, up to the loop: \<open>Inl\<close> is the state in which \<open>daemons\<close> returns
  through one of the labels \<open>err\<close>, \<open>err0\<close>, \<open>err1\<close>; \<open>Inr\<close> is the state in which the
  loop is entered, with \<open>fds[0]\<close>, \<open>fds[1]\<close>, \<open>fds[2]\<close> being \<open>open_ret\<close>, \<open>dup1_ret\<close>,
  \<open>dup2_ret\<close>.
\<close>

definition daemons_init :: "nat \<Rightarrow> daemons_in \<Rightarrow> int \<Rightarrow> proc \<Rightarrow> proc + proc" where
  "daemons_init max_signum d fd s =
     (let s1 = stress_sig_stop_stressing SIGALRM (sig_ret d) s in
      if sig_ret d < 0 then Inl (close_fd fd s1)
      else if setsid_ret d < 0 then Inl (close_fd fd s1)
      else
        let s2 = close_fd 2 (close_fd 1 (close_fd 0 s1));
            s3 = reset_signals max_signum s2
        in
        if open_ret d < 0 then Inl (close_fd fd s3)
        else
          let s4 = open_fd (open_ret d) s3 in
          if dup1_ret d < 0 then Inl (close_fd fd (close_fd (open_ret d) s4))
          else
            let s5 = open_fd (dup1_ret d) s4 in
            if dup2_ret d < 0 then
              Inl (close_fd fd (close_fd (open_ret d) (close_fd (dup1_ret d) s5)))
            else Inr (open_fd (dup2_ret d) s5))"

text \<open>
  The whole function: the initialisation, the loop with \<open>backoff = 100\<close>, and the
  closes behind the label the loop was left at (\<open>tidy\<close>, or \<open>err2\<close> falling through
  \<open>err1\<close>, \<open>err0\<close> and \<open>err\<close>).
\<close>

definition daemons ::
  "nat \<Rightarrow> daemons_in \<Rightarrow> iter list \<Rightarrow> int \<Rightarrow> bool \<Rightarrow> proc \<Rightarrow> proc option" where
  "daemons max_signum d its fd daemon_wait s =
     (case daemons_init max_signum d fd s of
        Inl s' \<Rightarrow> Some s'
      | Inr s6 \<Rightarrow>
          (case daemons_loop its fd daemon_wait 100 s6 of
             None \<Rightarrow> None
           | Some (Tidy, s7) \<Rightarrow>
               Some (close_fd (open_ret d) (close_fd (dup1_ret d) (close_fd (dup2_ret d) s7)))
           | Some (Err2, s7) \<Rightarrow>
               Some (close_fd fd
                 (close_fd (open_ret d) (close_fd (dup1_ret d) (close_fd (dup2_ret d) s7))))))"

subsection \<open>\<open>stress_daemon\<close>\<close>

text \<open>
  One attempt at the label \<open>again\<close>: the result of \<open>fork()\<close> with \<open>errno\<close>, and what
  the harness answers to \<open>stress_redo_fork(errno)\<close> and to \<open>keep_stressing(args)\<close>.
\<close>

record fork_in =
  fk_pid :: int
  fk_errno :: nat
  fk_redo :: bool
  fk_keep :: bool

datatype fork_exit = Finish | Fatal | Child | Parent int

fun fork_again :: "fork_in list \<Rightarrow> proc \<Rightarrow> (fork_exit \<times> proc) option" where
  "fork_again [] s = None"
| "fork_again (f # fs) s =
     (let s1 = s\<lparr>forks := Suc (forks s)\<rparr> in
      if fk_pid f < 0 then
        (if fk_redo f then fork_again fs s1
         else if \<not> fk_keep f then Some (Finish, s1)
         else Some (Fatal, s1))
      else if fk_pid f = 0 then Some (Child, s1\<lparr>spawned := Suc (spawned s1)\<rparr>)
      else Some (Parent (fk_pid f), s1\<lparr>spawned := Suc (spawned s1)\<rparr>))"

text \<open>
  One pass through the \<open>do ... while\<close> loop of the parent: the result of
  \<open>read(fds[0], buf, 1)\<close> with \<open>errno\<close>, and the value of \<open>keep_stressing(args)\<close>.
\<close>

record read_in =
  rd_n :: int
  rd_errno :: nat
  rd_keep :: bool

fun read_loop :: "int \<Rightarrow> read_in list \<Rightarrow> proc \<Rightarrow> proc option" where
  "read_loop fd0 [] s = None"
| "read_loop fd0 (r # rs) s =
     (if rd_n r < 0 then
        (let s1 = close_fd fd0 s in
         if rd_errno r \<noteq> EINTR then Some (pr_dbg s1) else Some s1)
      else
        let s1 = inc_counter s in
        if rd_keep r then read_loop fd0 rs s1 else Some s1)"

text \<open>
  Everything a run of \<open>stress_daemon\<close> is handed: the \<open>daemon-wait\<close> setting, the
  results of \<open>stress_sig_stop_stressing\<close> and of \<open>pipe\<close> with the two descriptors it
  stored, the attempts at \<open>fork\<close>, the reads of the parent, and the inputs of \<open>daemons\<close>
  in the child.
\<close>

record run_in =
  r_daemon_wait :: bool
  r_sig_ret :: int
  r_pipe_ret :: int
  r_fd0 :: int
  r_fd1 :: int
  r_forks :: "fork_in list"
  r_reads :: "read_in list"
  r_max_signum :: nat
  r_daemons :: daemons_in
  r_iters :: "iter list"

text \<open>A run ends by returning a status or, in the child, by \<open>shim_exit_group\<close>.\<close>

datatype outcome = Return int | Exit_group int

definition stress_daemon_child :: "run_in \<Rightarrow> proc \<Rightarrow> (outcome \<times> proc) option" where
  "stress_daemon_child e s =
     (case daemons (r_max_signum e) (r_daemons e) (r_iters e) (r_fd1 e) (r_daemon_wait e)
             (close_fd (r_fd0 e) s) of
        None \<Rightarrow> None
      | Some s1 \<Rightarrow> Some (Exit_group 0, close_fd (r_fd1 e) s1))"

definition stress_daemon_parent :: "run_in \<Rightarrow> int \<Rightarrow> proc \<Rightarrow> (outcome \<times> proc) option" where
  "stress_daemon_parent e pid s =
     (case read_loop (r_fd0 e) (r_reads e) (close_fd (r_fd1 e) s) of
        None \<Rightarrow> None
      | Some s1 \<Rightarrow> Some (Return EXIT_SUCCESS, daemon_wait_pid pid (r_daemon_wait e) s1))"

definition stress_daemon :: "run_in \<Rightarrow> proc \<Rightarrow> (outcome \<times> proc) option" where
  "stress_daemon e s =
     (let s1 = stress_sig_stop_stressing SIGALRM (r_sig_ret e) s in
      if r_sig_ret e < 0 then Some (Return EXIT_FAILURE, s1)
      else if r_pipe_ret e < 0 then Some (Return EXIT_FAILURE, pr_fail s1)
      else
        let s2 = open_fd (r_fd1 e) (open_fd (r_fd0 e) s1) in
        (case fork_again (r_forks e) s2 of
           None \<Rightarrow> None
         | Some (Finish, s3) \<Rightarrow> Some (Return EXIT_SUCCESS, s3)
         | Some (Fatal, s3) \<Rightarrow>
             Some (Return EXIT_FAILURE, close_fd (r_fd1 e) (close_fd (r_fd0 e) (pr_fail s3)))
         | Some (Child, s3) \<Rightarrow> stress_daemon_child e s3
         | Some (Parent pid, s3) \<Rightarrow> stress_daemon_parent e pid s3))"

subsection \<open>Kinds of loop iterations\<close>

text \<open>
  An iteration of the loop of \<open>daemons\<close> goes round again in two cases: \<open>fork\<close> failed
  for want of pids or memory, or \<open>fork\<close> returned 0 and the new process changed
  directory and wrote its byte.
\<close>

definition transient :: "iter \<Rightarrow> bool" where
  "transient it =
     (it_keep it \<and> it_pid it < 0 \<and> (it_errno it = EAGAIN \<or> it_errno it = ENOMEM))"

definition child_ok :: "iter \<Rightarrow> bool" where
  "child_ok it = (it_keep it \<and> it_pid it = 0 \<and> 0 \<le> it_chdir it \<and> it_write it = 1)"

definition continuing :: "iter \<Rightarrow> bool" where
  "continuing it = (transient it \<or> child_ok it)"

definition init_ok :: "daemons_in \<Rightarrow> bool" where
  "init_ok d =
     (0 \<le> sig_ret d \<and> 0 \<le> setsid_ret d \<and> 0 \<le> open_ret d \<and> 0 \<le> dup1_ret d \<and>
      0 \<le> dup2_ret d)"

text \<open>An attempt at \<open>again\<close> that jumps back to the label.\<close>

definition retried :: "fork_in \<Rightarrow> bool" where
  "retried f = (fk_pid f < 0 \<and> fk_redo f)"

text \<open>
  The delays of \<open>k\<close> consecutive passes through the retry branch that start with the
  delay \<open>b\<close>, and the delay left after them.
\<close>

fun schedule :: "nat \<Rightarrow> 64 word \<Rightarrow> 64 word list" where
  "schedule 0 b = []"
| "schedule (Suc k) b = b # schedule k (next_backoff b)"

fun backoff_after :: "nat \<Rightarrow> 64 word \<Rightarrow> 64 word" where
  "backoff_after 0 b = b"
| "backoff_after (Suc k) b = backoff_after k (next_backoff b)"

subsection \<open>Sample inputs\<close>

text \<open>A stressor process as the harness starts it.\<close>

definition proc0 :: proc where
  "proc0 = \<lparr>fds = {0, 1, 2}, sigs = (\<lambda>_. SIG_DFL), counter = 0, forks = 0, spawned = 0,
            sleeps = [], written = 0, waited = [], fails = 0, dbgs = 0\<rparr>"

text \<open>An initialisation of \<open>daemons\<close> in which every call succeeds.\<close>

definition init_fine :: daemons_in where
  "init_fine = \<lparr>sig_ret = 0, setsid_ret = 0, open_ret = 0, dup1_ret = 1, dup2_ret = 2\<rparr>"

text \<open>
  Iterations of the loop of \<open>daemons\<close>: a new process that writes its byte, one whose
  \<open>write\<close> fails, a \<open>fork\<close> failing with \<open>EAGAIN\<close>, the
  calling process after a successful \<open>fork\<close>, and the stop flag found set.
\<close>

definition child_fine :: iter where
  "child_fine = \<lparr>it_keep = True, it_pid = 0, it_errno = 0, it_chdir = 0, it_write = 1\<rparr>"

definition child_write_fails :: iter where
  "child_write_fails =
     \<lparr>it_keep = True, it_pid = 0, it_errno = 0, it_chdir = 0, it_write = - 1\<rparr>"

definition fork_eagain :: iter where
  "fork_eagain = \<lparr>it_keep = True, it_pid = - 1, it_errno = 11, it_chdir = 0, it_write = 0\<rparr>"

definition parent_of :: "int \<Rightarrow> iter" where
  "parent_of pid = \<lparr>it_keep = True, it_pid = pid, it_errno = 0, it_chdir = 0, it_write = 0\<rparr>"

definition stop_iter :: iter where
  "stop_iter = \<lparr>it_keep = False, it_pid = 0, it_errno = 0, it_chdir = 0, it_write = 0\<rparr>"

text \<open>
  Reads of the parent: one byte, end of file (all write ends closed), and a read
  interrupted by a signal; each with the value \<open>keep_stressing\<close> has afterwards.
\<close>

definition read_byte :: "bool \<Rightarrow> read_in" where
  "read_byte keep = \<lparr>rd_n = 1, rd_errno = 0, rd_keep = keep\<rparr>"

definition read_eof :: "bool \<Rightarrow> read_in" where
  "read_eof keep = \<lparr>rd_n = 0, rd_errno = 0, rd_keep = keep\<rparr>"

definition read_eintr :: "bool \<Rightarrow> read_in" where
  "read_eintr keep = \<lparr>rd_n = - 1, rd_errno = 4, rd_keep = keep\<rparr>"

text \<open>
  A run of \<open>stress_daemon\<close> on a Linux host (\<open>NSIG\<close> is 65): the handler is
  registered, \<open>pipe\<close> stores the descriptors 3 and 4, the attempts at \<open>fork\<close> are \<open>fs\<close>,
  the parent reads \<open>rs\<close>, the line of descent of the child goes through \<open>its\<close>.
\<close>

definition run_of :: "fork_in list \<Rightarrow> read_in list \<Rightarrow> iter list \<Rightarrow> run_in" where
  "run_of fs rs its =
     \<lparr>r_daemon_wait = False, r_sig_ret = 0, r_pipe_ret = 0, r_fd0 = 3, r_fd1 = 4,
      r_forks = fs, r_reads = rs, r_max_signum = 65, r_daemons = init_fine, r_iters = its\<rparr>"

text \<open>Results of \<open>fork\<close> in \<open>stress_daemon\<close>: the parent side, the child side, failures.\<close>

definition fork_parent :: fork_in where
  "fork_parent = \<lparr>fk_pid = 4242, fk_errno = 0, fk_redo = False, fk_keep = True\<rparr>"

definition fork_child :: fork_in where
  "fork_child = \<lparr>fk_pid = 0, fk_errno = 0, fk_redo = False, fk_keep = True\<rparr>"

definition fork_fails :: "bool \<Rightarrow> bool \<Rightarrow> fork_in" where
  "fork_fails redo keep = \<lparr>fk_pid = - 1, fk_errno = 11, fk_redo = redo, fk_keep = keep\<rparr>"

section \<open>Properties\<close>

subsection \<open>The backoff delay\<close>

text \<open>
  While the delay is at most the cap, the update is the minimum of the delay plus 100
  and the cap: the 64-bit addition does not wrap.
\<close>

lemma unat_next_backoff:
  "unat b \<le> 10000 \<Longrightarrow> unat (next_backoff b) = min (unat b + 100) 10000"
  by (auto simp: next_backoff_def MAX_BACKOFF_def Let_def word_less_nat_alt unat_word_ariths)

text \<open>The delays of consecutive retries, in closed form.\<close>

lemma schedule_closed:
  "unat b = min (100 * Suc j) 10000 \<Longrightarrow>
   schedule k b = map (\<lambda>i. word_of_nat (min (100 * Suc (j + i)) 10000)) [0..<k]"
proof (induction k arbitrary: b j)
  case 0
  then show ?case by simp
next
  case (Suc k)
  have le: "unat b \<le> 10000" using Suc.prems by simp
  have nb: "unat (next_backoff b) = min (100 * Suc (Suc j)) 10000"
    using unat_next_backoff [OF le] Suc.prems by simp
  have hd: "b = word_of_nat (min (100 * Suc j) 10000)"
    using Suc.prems by (metis of_nat_unat ucast_id)
  have tl: "schedule k (next_backoff b) =
      map (\<lambda>i. word_of_nat (min (100 * Suc (Suc j + i)) 10000)) [0..<k]"
    by (rule Suc.IH [OF nb])
  show ?case
    using hd tl by (simp add: map_upt_Suc del: upt_Suc)
qed

lemma schedule_from_100:
  "schedule k 100 = map (\<lambda>i. word_of_nat (min (100 * Suc i) 10000)) [0..<k]"
  using schedule_closed [of 100 0 k] by simp

subsection \<open>The loop of \<open>daemons\<close>\<close>

text \<open>
  Iterations that go round again only count forks, new processes, sleeps and written
  bytes, and move the delay along its schedule.
\<close>

lemma daemons_loop_prefix:
  "list_all continuing pre \<Longrightarrow>
   daemons_loop (pre @ rest) fd dw b s =
   daemons_loop rest fd dw (backoff_after (length (filter transient pre)) b)
     (s\<lparr>forks := forks s + length pre,
        spawned := spawned s + length (filter child_ok pre),
        sleeps := sleeps s @ schedule (length (filter transient pre)) b,
        written := written s + length (filter child_ok pre)\<rparr>)"
proof (induction pre arbitrary: b s)
  case Nil
  then show ?case by simp
next
  case (Cons p pre)
  have rest: "list_all continuing pre" using Cons.prems by simp
  have "transient p \<or> child_ok p" using Cons.prems by (simp add: continuing_def)
  then show ?case
  proof
    assume t: "transient p"
    then have nc: "\<not> child_ok p" by (auto simp: transient_def child_ok_def)
    show ?thesis
      using t nc by (simp add: Cons.IH [OF rest] transient_def Let_def)
  next
    assume c: "child_ok p"
    then have nt: "\<not> transient p" by (auto simp: transient_def child_ok_def)
    show ?thesis
      using c nt by (simp add: Cons.IH [OF rest] child_ok_def Let_def)
  qed
qed

text \<open>
  The signal reset, the initialisation when every call succeeds, and what the loop
  leaves alone.
\<close>

lemma fold_signal_dfl:
  "fold signal_dfl [0..<n] t i = (if i < n then SIG_DFL else t i)"
  by (induction n) (auto simp: signal_dfl_def)

lemma daemons_init_ok:
  "init_ok d \<Longrightarrow>
   daemons_init m d fd s =
   Inr (s\<lparr>fds := insert (dup2_ret d) (insert (dup1_ret d) (insert (open_ret d)
               (fds s - {0} - {1} - {2}))),
          sigs := fold signal_dfl [0..<m] ((sigs s)(SIGALRM := Stop_handler))\<rparr>)"
  by (simp add: daemons_init_def init_ok_def Let_def stress_sig_stop_stressing_def
      close_fd_def open_fd_def reset_signals_def)

lemma daemons_loop_keeps:
  "daemons_loop its fd dw b s = Some (x, s') \<Longrightarrow> fds s' = fds s \<and> sigs s' = sigs s"
proof (induction its fd dw b s rule: daemons_loop.induct)
  case (1 fd dw b s)
  then show ?case by simp
next
  case (2 it its fd dw b s)
  then show ?case
    by (auto simp: Let_def daemon_wait_pid_def split: if_splits)
qed

text \<open>An iteration that does not go round again ends the loop.\<close>

lemma daemons_loop_terminal:
  "\<not> continuing it \<Longrightarrow>
   \<exists>x s'. daemons_loop (it # post) fd dw b s = Some (x, s') \<and> sleeps s' = sleeps s \<and>
     written s' = written s \<and> fds s' = fds s \<and> sigs s' = sigs s"
  by (auto simp: continuing_def transient_def child_ok_def Let_def daemon_wait_pid_def)

subsection \<open>The retry at \<open>again\<close>\<close>

text \<open>Attempts that jump back to \<open>again\<close> only count calls of \<open>fork\<close>.\<close>

lemma fork_again_prefix:
  "list_all retried pre \<Longrightarrow>
   fork_again (pre @ rest) s = fork_again rest (s\<lparr>forks := forks s + length pre\<rparr>)"
  by (induction pre arbitrary: s) (simp_all add: retried_def Let_def)

subsection \<open>Claims\<close>

text \<open>
  C1. The claim: the run counter goes up only when the read returns exactly one byte,
  and a read at end of file ends the loop uncounted. The code tests \<open>n < 0\<close> only. In
  the run below \<open>fork\<close> returns in the parent, and both reads return 0 bytes, as they
  do once every write end of the pipe is closed; \<open>keep_stressing\<close> holds after the
  first and not after the second. The run ends with the counter at 2 although no byte
  was ever read.
\<close>

theorem eof_read_counted:
  "map_option (counter \<circ> snd)
     (stress_daemon (run_of [fork_parent] [read_eof True, read_eof False] []) proc0) = Some 2"
  by (simp add: stress_daemon_def run_of_def fork_parent_def read_eof_def proc0_def
      stress_daemon_parent_def stress_sig_stop_stressing_def open_fd_def close_fd_def
      inc_counter_def daemon_wait_pid_def Let_def)

text \<open>
  C2, as stated, fails. The claim: a read failing with \<open>EINTR\<close> is retried. Here the
  first read fails with \<open>EINTR\<close> while \<open>keep_stressing\<close> holds and a second read would
  return one byte: the loop does not behave as if the read were tried again, the
  counter stays at 0 and the read end (descriptor 3) is closed.
\<close>

theorem interrupted_read_not_retried:
  "read_loop 3 (read_eintr True # [read_byte False]) proc0 \<noteq>
     read_loop 3 [read_byte False] proc0 \<and>
   map_option counter (read_loop 3 (read_eintr True # [read_byte False]) proc0) = Some 0 \<and>
   map_option fds (read_loop 3 (read_eintr True # [read_byte False]) (open_fd 3 proc0)) =
     Some {0, 1, 2}"
  by (auto simp add: read_eintr_def read_byte_def proc0_def close_fd_def open_fd_def
      inc_counter_def EINTR_def Let_def)

text \<open>
  C2, amended. In the read loop of \<open>stress_daemon\<close> every read that returns a negative
  value, interrupted or not, closes the read end and ends the loop without being
  counted and without another read; the \<open>EINTR\<close> case differs only in that no debug
  message is printed.
\<close>

theorem failed_read_ends_loop:
  assumes "rd_n r < 0"
  shows "\<exists>s'. read_loop fd0 (r # rs) s = Some s' \<and> counter s' = counter s \<and>
    fds s' = fds s - {fd0} \<and> dbgs s' = (if rd_errno r = EINTR then dbgs s else Suc (dbgs s))"
  using assms by (simp add: close_fd_def pr_dbg_def Let_def)

theorem failed_read_ends_loop_witness:
  "rd_n (read_eintr True) < 0 \<and>
   map_option counter (read_loop 3 (read_eintr True # [read_byte True]) proc0) = Some 0 \<and>
   map_option dbgs (read_loop 3 (read_eintr True # [read_byte True]) proc0) = Some 0"
proof -
  have h: "rd_n (read_eintr True) < 0" by (simp add: read_eintr_def)
  have z: "counter proc0 = 0" "dbgs proc0 = 0" "rd_errno (read_eintr True) = EINTR"
    by (simp_all add: proc0_def read_eintr_def EINTR_def)
  show ?thesis
    using h failed_read_ends_loop [OF h, of 3 "[read_byte True]" proc0] z by auto
qed

text \<open>
  C3, as stated, fails. The claim: one call of \<open>daemons\<close> creates only one descendant
  and does not go on spawning after a success. In this call of \<open>daemons\<close> three
  processes in a row are created, each by the one before it; each writes its byte and
  stays in the loop, until the stop flag is found set. Three processes were spawned and
  three bytes written.
\<close>

theorem descendants_keep_spawning:
  "map_option spawned
     (daemons 65 init_fine [child_fine, child_fine, child_fine, stop_iter] 4 False proc0) =
     Some 3 \<and>
   map_option written
     (daemons 65 init_fine [child_fine, child_fine, child_fine, stop_iter] 4 False proc0) =
     Some 3"
  by (simp add: daemons_def daemons_init_ok init_ok_def init_fine_def child_fine_def
      stop_iter_def proc0_def close_fd_def Let_def)

text \<open>
  C3, amended. In the process in which \<open>fork\<close> returns a positive pid the loop ends at
  once, at \<open>tidy\<close>, after waiting for the child when \<open>daemon_wait\<close> is set: no process
  forks successfully twice. The new process, once it has changed directory and written
  its byte, stays in the loop and forks again while \<open>keep_stressing_flag\<close> holds. So
  along a line of descent through \<open>pre\<close> that ends in a process where \<open>fork\<close> returns
  a positive pid, one more process was created than bytes were written, one byte for
  each descendant that went round the loop.
\<close>

theorem parent_leaves_loop_child_goes_on:
  assumes "list_all continuing pre" and "it_keep it" and "0 < it_pid it"
  shows "\<exists>s'. daemons_loop (pre @ it # post) fd dw b s = Some (Tidy, s') \<and>
    forks s' = forks s + length pre + 1 \<and>
    spawned s' = spawned s + length (filter child_ok pre) + 1 \<and>
    written s' = written s + length (filter child_ok pre) \<and>
    waited s' = (if dw then waited s @ [it_pid it] else waited s)"
  using assms(2,3)
  by (simp add: daemons_loop_prefix [OF assms(1)] Let_def daemon_wait_pid_def)

theorem parent_leaves_loop_child_goes_on_witness:
  "list_all continuing [child_fine, fork_eagain, child_fine] \<and>
   it_keep (parent_of 77) \<and> 0 < it_pid (parent_of 77) \<and>
   map_option fst
     (daemons_loop ([child_fine, fork_eagain, child_fine] @ parent_of 77 # [child_fine])
        4 True 100 proc0) = Some Tidy \<and>
   map_option (spawned \<circ> snd)
     (daemons_loop ([child_fine, fork_eagain, child_fine] @ parent_of 77 # [child_fine])
        4 True 100 proc0) = Some 3 \<and>
   map_option (forks \<circ> snd)
     (daemons_loop ([child_fine, fork_eagain, child_fine] @ parent_of 77 # [child_fine])
        4 True 100 proc0) = Some 4 \<and>
   map_option (waited \<circ> snd)
     (daemons_loop ([child_fine, fork_eagain, child_fine] @ parent_of 77 # [child_fine])
        4 True 100 proc0) = Some [77]"
proof -
  have h1: "list_all continuing [child_fine, fork_eagain, child_fine]"
    by (simp add: continuing_def transient_def child_ok_def fork_eagain_def child_fine_def
        EAGAIN_def)
  have h2: "it_keep (parent_of 77)" and h3: "0 < it_pid (parent_of 77)"
    and p: "it_pid (parent_of 77) = 77"
    by (simp_all add: parent_of_def)
  have c: "length (filter child_ok [child_fine, fork_eagain, child_fine]) = 2"
    by (simp add: child_ok_def fork_eagain_def child_fine_def)
  have z: "forks proc0 = 0" "spawned proc0 = 0" "waited proc0 = []"
    by (simp_all add: proc0_def)
  note inst = parent_leaves_loop_child_goes_on [OF h1 h2 h3, of "[child_fine]" 4 True 100 proc0,
      unfolded c z p]
  show ?thesis
    using h1 h2 h3 inst by auto
qed

text \<open>
  C4. The backoff delay starts at 100; after each transient fork failure (\<open>EAGAIN\<close> or
  \<open>ENOMEM\<close>) \<open>daemons\<close> sleeps for the current delay and then replaces it by the minimum
  of the delay plus 100 and 10000. In every run of \<open>daemons\<close> that reaches the loop and
  leaves it, the delays slept are 100, 200, ... in steps of 100 up to 10000 and 10000
  from then on, whatever the state the function was entered in: the \<open>i\<close>-th sleep
  (from 0) lasts \<open>min (100 * (i + 1)) 10000\<close>.
\<close>

theorem backoff_schedule:
  assumes "unat b \<le> 10000" and "init_ok d" and "list_all continuing pre"
    and "\<not> continuing it"
  shows "unat (next_backoff b) = min (unat b + 100) 10000 \<and>
    map_option sleeps (daemons m d (pre @ it # post) fd dw s) =
    Some (sleeps s @
      map (\<lambda>i. word_of_nat (min (100 * Suc i) 10000)) [0..<length (filter transient pre)])"
proof
  show "unat (next_backoff b) = min (unat b + 100) 10000"
    by (rule unat_next_backoff [OF assms(1)])
next
  let ?k = "length (filter transient pre)"
  obtain s6 where s6: "daemons_init m d fd s = Inr s6" and sl6: "sleeps s6 = sleeps s"
    using daemons_init_ok [OF assms(2)] by simp
  let ?s = "s6\<lparr>forks := forks s6 + length pre,
        spawned := spawned s6 + length (filter child_ok pre),
        sleeps := sleeps s6 @ schedule ?k 100,
        written := written s6 + length (filter child_ok pre)\<rparr>"
  obtain x s' where run: "daemons_loop (it # post) fd dw (backoff_after ?k 100) ?s = Some (x, s')"
    and sl: "sleeps s' = sleeps ?s"
    using daemons_loop_terminal [OF assms(4)] by blast
  have loop: "daemons_loop (pre @ it # post) fd dw 100 s6 = Some (x, s')"
    using daemons_loop_prefix [OF assms(3)] run by simp
  have "sleeps s' = sleeps s @ map (\<lambda>i. word_of_nat (min (100 * Suc i) 10000)) [0..<?k]"
    using sl sl6 by (simp add: schedule_from_100)
  then show "map_option sleeps (daemons m d (pre @ it # post) fd dw s) =
    Some (sleeps s @ map (\<lambda>i. word_of_nat (min (100 * Suc i) 10000)) [0..<?k])"
    using s6 loop by (cases x) (simp_all add: daemons_def close_fd_def)
qed

theorem backoff_schedule_witness:
  "unat (9950 :: 64 word) \<le> 10000 \<and> init_ok init_fine \<and>
   list_all continuing [fork_eagain, fork_eagain, child_fine, fork_eagain] \<and>
   \<not> continuing stop_iter \<and>
   unat (next_backoff 9950) = 10000 \<and>
   map_option sleeps
     (daemons 65 init_fine ([fork_eagain, fork_eagain, child_fine, fork_eagain] @ stop_iter # [])
        4 False proc0) = Some [100, 200, 300]"
proof -
  have h1: "unat (9950 :: 64 word) \<le> 10000" by simp
  have h2: "init_ok init_fine" by (simp add: init_ok_def init_fine_def)
  have h3: "list_all continuing [fork_eagain, fork_eagain, child_fine, fork_eagain]"
    by (simp add: continuing_def transient_def child_ok_def fork_eagain_def child_fine_def
        EAGAIN_def)
  have h4: "\<not> continuing stop_iter"
    by (simp add: continuing_def transient_def child_ok_def stop_iter_def)
  have t: "length (filter transient [fork_eagain, fork_eagain, child_fine, fork_eagain]) = 3"
    by (simp add: transient_def fork_eagain_def child_fine_def EAGAIN_def)
  have u: "[0..<3] = [0, 1, 2]" by (simp add: upt_rec)
  have sl: "sleeps proc0 = []" by (simp add: proc0_def)
  note inst = backoff_schedule [OF h1 h2 h3 h4, of 65 "[]" 4 False proc0, unfolded t u sl]
  show ?thesis
    using h1 h2 h3 h4 inst by simp
qed

text \<open>
  C5. The claim: on every path on which the run ends both ends of the pipe are closed
  before \<open>stress_daemon\<close> returns. The read end is closed only where a read fails. In
  the first run below the parent reads one byte and \<open>keep_stressing\<close> is then false:
  the run returns \<open>EXIT_SUCCESS\<close> with the read end (descriptor 3) still open. In the
  second \<open>fork\<close> fails, the harness does not ask for a retry and \<open>keep_stressing\<close> is
  false: the run returns \<open>EXIT_SUCCESS\<close> through \<open>finish\<close> with both ends (3 and 4)
  open.
\<close>

theorem read_end_left_open:
  "map_option fst (stress_daemon (run_of [fork_parent] [read_byte False] []) proc0) =
     Some (Return EXIT_SUCCESS) \<and>
   map_option (fds \<circ> snd) (stress_daemon (run_of [fork_parent] [read_byte False] []) proc0) =
     Some {0, 1, 2, 3} \<and>
   map_option fst (stress_daemon (run_of [fork_fails False False] [] []) proc0) =
     Some (Return EXIT_SUCCESS) \<and>
   map_option (fds \<circ> snd) (stress_daemon (run_of [fork_fails False False] [] []) proc0) =
     Some {0, 1, 2, 3, 4}"
  by (auto simp add: stress_daemon_def run_of_def fork_parent_def read_byte_def proc0_def
      stress_daemon_parent_def stress_sig_stop_stressing_def open_fd_def close_fd_def
      inc_counter_def daemon_wait_pid_def Let_def fork_fails_def)

text \<open>
  C6. When the \<open>fork\<close> of the worker fails and \<open>stress_redo_fork\<close> asks for a retry,
  \<open>fork\<close> is called again. When it fails and no retry is asked for, the run returns
  \<open>EXIT_FAILURE\<close> after one \<open>pr_fail\<close>, with both ends of the pipe closed, if
  \<open>keep_stressing\<close> still holds, and returns \<open>EXIT_SUCCESS\<close> without reporting if it no
  longer holds.
\<close>

theorem worker_fork_failure:
  assumes "0 \<le> r_sig_ret e" and "0 \<le> r_pipe_ret e"
    and "r_forks e = pre @ f # post" and "list_all retried pre"
    and "fk_pid f < 0" and "\<not> fk_redo f"
  shows "fork_again (pre @ rest) s0 = fork_again rest (s0\<lparr>forks := forks s0 + length pre\<rparr>) \<and>
    (\<exists>s'. stress_daemon e s =
      Some (Return (if fk_keep f then EXIT_FAILURE else EXIT_SUCCESS), s') \<and>
    forks s' = forks s + length pre + 1 \<and> spawned s' = spawned s \<and>
    counter s' = counter s \<and>
    fails s' = (if fk_keep f then Suc (fails s) else fails s) \<and>
    fds s' = (if fk_keep f then fds s - {r_fd0 e, r_fd1 e}
              else insert (r_fd1 e) (insert (r_fd0 e) (fds s))))"
  using assms
  by (auto simp add: stress_daemon_def fork_again_prefix Let_def stress_sig_stop_stressing_def
      open_fd_def close_fd_def pr_fail_def)

theorem worker_fork_failure_witness:
  "0 \<le> r_sig_ret (run_of [fork_fails True True, fork_fails False True, fork_parent] [] []) \<and>
   0 \<le> r_pipe_ret (run_of [fork_fails True True, fork_fails False True, fork_parent] [] []) \<and>
   r_forks (run_of [fork_fails True True, fork_fails False True, fork_parent] [] []) =
     [fork_fails True True] @ fork_fails False True # [fork_parent] \<and>
   list_all retried [fork_fails True True] \<and>
   fk_pid (fork_fails False True) < 0 \<and> \<not> fk_redo (fork_fails False True) \<and>
   map_option fst
     (stress_daemon (run_of [fork_fails True True, fork_fails False True, fork_parent] [] [])
        proc0) = Some (Return EXIT_FAILURE) \<and>
   map_option (fds \<circ> snd)
     (stress_daemon (run_of [fork_fails True True, fork_fails False True, fork_parent] [] [])
        proc0) = Some {0, 1, 2} \<and>
   map_option (forks \<circ> snd)
     (stress_daemon (run_of [fork_fails True True, fork_fails False True, fork_parent] [] [])
        proc0) = Some 2"
proof -
  let ?e = "run_of [fork_fails True True, fork_fails False True, fork_parent] [] []"
  have h1: "0 \<le> r_sig_ret ?e" and h2: "0 \<le> r_pipe_ret ?e"
    and h3: "r_forks ?e = [fork_fails True True] @ fork_fails False True # [fork_parent]"
    and fd: "r_fd0 ?e = 3" "r_fd1 ?e = 4"
    by (simp_all add: run_of_def)
  have h4: "list_all retried [fork_fails True True]"
    by (simp add: retried_def fork_fails_def)
  have h5: "fk_pid (fork_fails False True) < 0" and h6: "\<not> fk_redo (fork_fails False True)"
    and k: "fk_keep (fork_fails False True)"
    by (simp_all add: fork_fails_def)
  have z: "forks proc0 = 0" "fds proc0 = {0, 1, 2}" by (simp_all add: proc0_def)
  show ?thesis
    using h1 h2 h3 h4 h5 h6 worker_fork_failure [OF h1 h2 h3 h4 h5 h6, where s = proc0 and rest = "[]" and ?s0.0 = proc0] k z fd
    by auto
qed

text \<open>
  C7. A descendant whose \<open>chdir\<close> fails, or whose \<open>write\<close> does not return 1, leaves
  through \<open>err2\<close>: it closes the three null-device descriptors and the write end of the
  pipe and ends by \<open>shim_exit_group(0)\<close>. It has written no byte (the bytes written are
  those of the descendants before it), it does not fork again (the iterations \<open>post\<close>
  are never reached), and it neither reports a failure nor counts. The parent side of
  \<open>stress_daemon\<close>, whatever it reads, returns \<open>EXIT_SUCCESS\<close> if it returns.
\<close>

theorem failed_descendant_abandoned:
  assumes "init_ok (r_daemons e)" and "r_iters e = pre @ it # post"
    and "list_all continuing pre"
    and "it_keep it" and "it_pid it = 0" and "it_chdir it < 0 \<or> it_write it \<noteq> 1"
  shows "(\<exists>s'. stress_daemon_child e s = Some (Exit_group 0, s') \<and>
    r_fd1 e \<notin> fds s' \<and> open_ret (r_daemons e) \<notin> fds s' \<and>
    dup1_ret (r_daemons e) \<notin> fds s' \<and> dup2_ret (r_daemons e) \<notin> fds s' \<and>
    written s' = written s + length (filter child_ok pre) \<and>
    forks s' = forks s + length pre + 1 \<and> counter s' = counter s \<and> fails s' = fails s) \<and>
    map_option fst (stress_daemon_parent e1 pid s1) \<in> {None, Some (Return EXIT_SUCCESS)}"
proof -
  let ?d = "r_daemons e"
  let ?s0 = "close_fd (r_fd0 e) s"
  obtain s6 where s6: "daemons_init (r_max_signum e) ?d (r_fd1 e) ?s0 = Inr s6"
    and k6: "written s6 = written s" "forks s6 = forks s" "counter s6 = counter s"
      "fails s6 = fails s"
    using daemons_init_ok [OF assms(1), of "r_max_signum e" "r_fd1 e" ?s0]
    by (simp add: close_fd_def)
  let ?s = "s6\<lparr>forks := forks s6 + length pre,
        spawned := spawned s6 + length (filter child_ok pre),
        sleeps := sleeps s6 @ schedule (length (filter transient pre)) 100,
        written := written s6 + length (filter child_ok pre)\<rparr>"
  have loop: "daemons_loop (r_iters e) (r_fd1 e) (r_daemon_wait e) 100 s6 =
      Some (Err2, ?s\<lparr>forks := Suc (forks ?s), spawned := Suc (spawned ?s)\<rparr>)"
    using assms(4-6) unfolding assms(2) daemons_loop_prefix [OF assms(3)]
    by (auto simp: Let_def)
  have child: "\<exists>s'. stress_daemon_child e s = Some (Exit_group 0, s') \<and>
    r_fd1 e \<notin> fds s' \<and> open_ret (r_daemons e) \<notin> fds s' \<and>
    dup1_ret (r_daemons e) \<notin> fds s' \<and> dup2_ret (r_daemons e) \<notin> fds s' \<and>
    written s' = written s + length (filter child_ok pre) \<and>
    forks s' = forks s + length pre + 1 \<and> counter s' = counter s \<and> fails s' = fails s"
    using s6 loop k6
    by (simp add: stress_daemon_child_def daemons_def close_fd_def)
  have parent: "map_option fst (stress_daemon_parent e1 pid s1) \<in>
      {None, Some (Return EXIT_SUCCESS)}"
    by (simp add: stress_daemon_parent_def split: option.split)
  show ?thesis using child parent by blast
qed

theorem failed_descendant_abandoned_witness:
  "init_ok (r_daemons (run_of [fork_child] [] [child_fine, child_write_fails, child_fine])) \<and>
   r_iters (run_of [fork_child] [] [child_fine, child_write_fails, child_fine]) =
     [child_fine] @ child_write_fails # [child_fine] \<and>
   list_all continuing [child_fine] \<and>
   it_keep child_write_fails \<and> it_pid child_write_fails = 0 \<and>
   (it_chdir child_write_fails < 0 \<or> it_write child_write_fails \<noteq> 1) \<and>
   map_option fst
     (stress_daemon_child (run_of [fork_child] [] [child_fine, child_write_fails, child_fine])
        (open_fd 4 (open_fd 3 proc0))) = Some (Exit_group 0) \<and>
   map_option (written \<circ> snd)
     (stress_daemon_child (run_of [fork_child] [] [child_fine, child_write_fails, child_fine])
        (open_fd 4 (open_fd 3 proc0))) = Some 1 \<and>
   map_option (forks \<circ> snd)
     (stress_daemon_child (run_of [fork_child] [] [child_fine, child_write_fails, child_fine])
        (open_fd 4 (open_fd 3 proc0))) = Some 2"
proof -
  let ?e = "run_of [fork_child] [] [child_fine, child_write_fails, child_fine]"
  have h1: "init_ok (r_daemons ?e)"
    by (simp add: run_of_def init_ok_def init_fine_def)
  have h2: "r_iters ?e = [child_fine] @ child_write_fails # [child_fine]"
    by (simp add: run_of_def)
  have h3: "list_all continuing [child_fine]"
    by (simp add: continuing_def child_ok_def child_fine_def)
  have h4: "it_keep child_write_fails" and h5: "it_pid child_write_fails = 0"
    and h6: "it_chdir child_write_fails < 0 \<or> it_write child_write_fails \<noteq> 1"
    by (simp_all add: child_write_fails_def)
  have c: "length (filter child_ok [child_fine]) = 1"
    by (simp add: child_ok_def child_fine_def)
  have z: "written (open_fd 4 (open_fd 3 proc0)) = 0" "forks (open_fd 4 (open_fd 3 proc0)) = 0"
    by (simp_all add: proc0_def open_fd_def)
  note inst = failed_descendant_abandoned [OF h1 h2 h3 h4 h5 h6, where s = "open_fd 4 (open_fd 3 proc0)" and ?e1.0 = "run_of [] [] []" and pid = 1
        and ?s1.0 = proc0,
      unfolded c z]
  show ?thesis
    using h1 h2 h3 h4 h5 h6 inst by auto
qed

text \<open>
  C8. If \<open>pipe\<close> fails, \<open>stress_daemon\<close> reports the failure once and returns
  \<open>EXIT_FAILURE\<close>; the counter is what it was (0 in a fresh run), \<open>fork\<close> is never
  called and no process is created.
\<close>

theorem pipe_fails:
  assumes "0 \<le> r_sig_ret e" and "r_pipe_ret e < 0"
  shows "\<exists>s'. stress_daemon e s = Some (Return EXIT_FAILURE, s') \<and>
    fails s' = Suc (fails s) \<and> counter s' = counter s \<and> forks s' = forks s \<and>
    spawned s' = spawned s \<and> fds s' = fds s"
  using assms by (simp add: stress_daemon_def stress_sig_stop_stressing_def pr_fail_def)

theorem pipe_fails_witness:
  "0 \<le> r_sig_ret ((run_of [fork_parent] [read_byte False] [])\<lparr>r_pipe_ret := - 1\<rparr>) \<and>
   r_pipe_ret ((run_of [fork_parent] [read_byte False] [])\<lparr>r_pipe_ret := - 1\<rparr>) < 0 \<and>
   map_option fst
     (stress_daemon ((run_of [fork_parent] [read_byte False] [])\<lparr>r_pipe_ret := - 1\<rparr>) proc0) =
     Some (Return EXIT_FAILURE) \<and>
   map_option (counter \<circ> snd)
     (stress_daemon ((run_of [fork_parent] [read_byte False] [])\<lparr>r_pipe_ret := - 1\<rparr>) proc0) =
     Some 0 \<and>
   map_option (forks \<circ> snd)
     (stress_daemon ((run_of [fork_parent] [read_byte False] [])\<lparr>r_pipe_ret := - 1\<rparr>) proc0) =
     Some 0"
proof -
  let ?e = "(run_of [fork_parent] [read_byte False] [])\<lparr>r_pipe_ret := - 1\<rparr>"
  have h1: "0 \<le> r_sig_ret ?e" by (simp add: run_of_def)
  have h2: "r_pipe_ret ?e < 0" by simp
  have z: "counter proc0 = 0" "forks proc0 = 0" by (simp_all add: proc0_def)
  show ?thesis
    using h1 h2 pipe_fails [OF h1 h2, of proc0] z by auto
qed

text \<open>
  C9. If the registration of the stop-signal handler fails, \<open>stress_daemon\<close> returns
  \<open>EXIT_FAILURE\<close> at once: no descriptor has been opened, \<open>fork\<close> has not been called,
  the counter has not moved and nothing has been reported.
\<close>

theorem handler_registration_fails:
  assumes "r_sig_ret e < 0"
  shows "\<exists>s'. stress_daemon e s = Some (Return EXIT_FAILURE, s') \<and>
    fds s' = fds s \<and> counter s' = counter s \<and> forks s' = forks s \<and>
    spawned s' = spawned s \<and> fails s' = fails s"
  using assms by (simp add: stress_daemon_def stress_sig_stop_stressing_def)

theorem handler_registration_fails_witness:
  "r_sig_ret ((run_of [fork_parent] [read_byte False] [])\<lparr>r_sig_ret := - 1\<rparr>) < 0 \<and>
   map_option fst
     (stress_daemon ((run_of [fork_parent] [read_byte False] [])\<lparr>r_sig_ret := - 1\<rparr>) proc0) =
     Some (Return EXIT_FAILURE) \<and>
   map_option (fds \<circ> snd)
     (stress_daemon ((run_of [fork_parent] [read_byte False] [])\<lparr>r_sig_ret := - 1\<rparr>) proc0) =
     Some {0, 1, 2} \<and>
   map_option (counter \<circ> snd)
     (stress_daemon ((run_of [fork_parent] [read_byte False] [])\<lparr>r_sig_ret := - 1\<rparr>) proc0) =
     Some 0"
proof -
  have h: "r_sig_ret ((run_of [fork_parent] [read_byte False] [])\<lparr>r_sig_ret := - 1\<rparr>) < 0"
    by simp
  have z: "fds proc0 = {0, 1, 2}" "counter proc0 = 0" by (simp_all add: proc0_def)
  show ?thesis
    using h handler_registration_fails [OF h, of proc0] z by auto
qed

text \<open>
  C10. In \<open>daemons\<close> the handler for \<open>SIGALRM\<close> is registered first; then, once
  \<open>setsid\<close> has succeeded, the loop over \<open>0 \<le> i < MAX_SIGNUM\<close> sets every disposition
  to the default, that of \<open>SIGALRM\<close> among them whenever \<open>SIGALRM < MAX_SIGNUM\<close>. So
  after the initialisation, however it ends, and at the end of every run of \<open>daemons\<close>
  that returns, the disposition of \<open>SIGALRM\<close> is the default and not the handler.
\<close>

theorem stop_signal_reset_to_default:
  assumes "0 \<le> sig_ret d" and "0 \<le> setsid_ret d" and "SIGALRM < max_signum"
  shows "sigs (stress_sig_stop_stressing SIGALRM (sig_ret d) s) SIGALRM = Stop_handler \<and>
    case_sum (\<lambda>s'. sigs s' SIGALRM) (\<lambda>s'. sigs s' SIGALRM) (daemons_init max_signum d fd s) =
      SIG_DFL \<and>
    map_option (\<lambda>s'. sigs s' SIGALRM) (daemons max_signum d its fd dw s) \<in>
      {None, Some SIG_DFL}"
proof -
  have reg: "sigs (stress_sig_stop_stressing SIGALRM (sig_ret d) s) SIGALRM = Stop_handler"
    using assms(1) by (simp add: stress_sig_stop_stressing_def)
  have init: "case_sum (\<lambda>s'. sigs s' SIGALRM) (\<lambda>s'. sigs s' SIGALRM)
      (daemons_init max_signum d fd s) = SIG_DFL"
    using assms
    by (simp add: daemons_init_def Let_def close_fd_def open_fd_def reset_signals_def
        fold_signal_dfl)
  have run: "map_option (\<lambda>s'. sigs s' SIGALRM) (daemons max_signum d its fd dw s) \<in>
      {None, Some SIG_DFL}"
  proof (cases "daemons_init max_signum d fd s")
    case (Inl s')
    then show ?thesis using init by (simp add: daemons_def)
  next
    case (Inr s6)
    then have d6: "sigs s6 SIGALRM = SIG_DFL" using init by simp
    show ?thesis
    proof (cases "daemons_loop its fd dw 100 s6")
      case None
      then show ?thesis using Inr by (simp add: daemons_def)
    next
      case (Some r)
      obtain x s7 where r: "r = (x, s7)" by (cases r)
      have "sigs s7 = sigs s6" using daemons_loop_keeps Some r by blast
      then show ?thesis
        using Inr Some r d6 by (cases x) (simp_all add: daemons_def close_fd_def)
    qed
  qed
  show ?thesis using reg init run by blast
qed

theorem stop_signal_reset_to_default_witness:
  "0 \<le> sig_ret init_fine \<and> 0 \<le> setsid_ret init_fine \<and> SIGALRM < 65 \<and>
   sigs (stress_sig_stop_stressing SIGALRM (sig_ret init_fine) proc0) SIGALRM = Stop_handler \<and>
   case_sum (\<lambda>s'. sigs s' SIGALRM) (\<lambda>s'. sigs s' SIGALRM) (daemons_init 65 init_fine 4 proc0) =
     SIG_DFL"
proof -
  have h1: "0 \<le> sig_ret init_fine" and h2: "0 \<le> setsid_ret init_fine"
    by (simp_all add: init_fine_def)
  have h3: "SIGALRM < 65" by (simp add: SIGALRM_def)
  show ?thesis
    using h1 h2 h3 stop_signal_reset_to_default [OF h1 h2 h3, of proc0 4 "[stop_iter]" False]
    by simp
qed

end
